theory Spec2Isabelle
  imports Main
begin

section \<open>Python values shared by both programs\<close>

text \<open>
  Text is modelled as \<^typ>\<open>string\<close>: a \<^typ>\<open>char\<close> stands for the code point of
  the same number, 0 to 255. On these code points the whitespace of \<^verbatim>\<open>str.split\<close> and
  \<^verbatim>\<open>str.strip\<close> and the case mappings of \<^verbatim>\<open>str.upper\<close> and
  \<^verbatim>\<open>str.lower\<close> are modelled in full. A Python \<^verbatim>\<open>str\<close> with a code point
  above 255 has no counterpart in the model.
\<close>

text \<open>
  The exceptions the two programs raise or catch. A constructor stands for its class and
  the subclasses of it; \<open>OtherException\<close> is any \<^verbatim>\<open>Exception\<close> that is none of the
  other four. The argument is the message the exception was raised with, and \<open>exn_str\<close>
  is \<^verbatim>\<open>str(e)\<close>: the message, for a \<^verbatim>\<open>KeyError\<close> the message in quotes
  (the \<^verbatim>\<open>repr\<close> of a message that needs no escape).
\<close>

datatype exn =
    ValueError string
  | KeyError string
  | IndexError string
  | FileNotFoundError string
  | OtherException string

fun exn_str :: "exn \<Rightarrow> string" where
  "exn_str (ValueError m) = m"
| "exn_str (KeyError m) = [CHR 0x27] @ m @ [CHR 0x27]"
| "exn_str (IndexError m) = m"
| "exn_str (FileNotFoundError m) = m"
| "exn_str (OtherException m) = m"

subsection \<open>\<^verbatim>\<open>str.split()\<close>, \<^verbatim>\<open>str.strip()\<close>, \<^verbatim>\<open>" ".join\<close>, \<^verbatim>\<open>upper\<close>, \<^verbatim>\<open>lower\<close>\<close>

definition whitespace :: "char list" where
  "whitespace =
     [CHR 0x09, CHR 0x0A, CHR 0x0B, CHR 0x0C, CHR 0x0D,
      CHR 0x1C, CHR 0x1D, CHR 0x1E, CHR 0x1F, CHR 0x20, CHR 0x85, CHR 0xA0]"

definition is_space :: "char \<Rightarrow> bool" where
  "is_space c \<longleftrightarrow> c \<in> set whitespace"

text \<open>
  \<^verbatim>\<open>s.split()\<close> with no separator: runs of whitespace separate the tokens, and no
  token is empty. \<open>split_from tok s\<close> scans \<open>s\<close> with the token begun so far in \<open>tok\<close>.
\<close>

fun split_from :: "string \<Rightarrow> string \<Rightarrow> string list" where
  "split_from tok [] = (if tok = [] then [] else [tok])"
| "split_from tok (c # cs) =
     (if is_space c
      then (if tok = [] then split_from [] cs else tok # split_from [] cs)
      else split_from (tok @ [c]) cs)"

definition split_ws :: "string \<Rightarrow> string list" where
  "split_ws s = split_from [] s"

definition strip :: "string \<Rightarrow> string" where
  "strip s = rev (dropWhile is_space (rev (dropWhile is_space s)))"

fun join :: "string \<Rightarrow> string list \<Rightarrow> string" where
  "join sep [] = []"
| "join sep [w] = w"
| "join sep (w # v # ws) = w @ sep @ join sep (v # ws)"

text \<open>
  \<^verbatim>\<open>str.upper\<close> maps character by character. Three code points below 256 leave the
  range of \<^typ>\<open>char\<close>: 0xDF becomes the two letters SS, 0xB5 becomes U+039C and 0xFF
  becomes U+0178. The result is therefore a list of code points, and a string is compared
  with it through \<open>code_points\<close>.
\<close>

definition code_points :: "string \<Rightarrow> nat list" where
  "code_points s = map of_char s"

definition upper_char :: "char \<Rightarrow> nat list" where
  "upper_char c =
     (let n = of_char c in
      if (97 \<le> n \<and> n \<le> 122) \<or> (224 \<le> n \<and> n \<le> 254 \<and> n \<noteq> 247) then [n - 32]
      else if n = 223 then [83, 83]
      else if n = 181 then [924]
      else if n = 255 then [376]
      else [n])"

definition upper :: "string \<Rightarrow> nat list" where
  "upper s = concat (map upper_char s)"

text \<open>\<^verbatim>\<open>str.lower\<close> stays below 256 on code points below 256.\<close>

definition lower_char :: "char \<Rightarrow> char" where
  "lower_char c =
     (let n = of_char c :: nat in
      if (65 \<le> n \<and> n \<le> 90) \<or> (192 \<le> n \<and> n \<le> 222 \<and> n \<noteq> 215) then char_of (n + 32)
      else c)"

definition lower :: "string \<Rightarrow> string" where
  "lower s = map lower_char s"


subsection \<open>Dictionaries\<close>

text \<open>
  A Python \<^verbatim>\<open>dict\<close> keeps its keys in insertion order: it is an association list.
  Assigning to a key that is present replaces the value where it stands, assigning to a
  new key appends the entry.
\<close>

type_synonym ('k, 'v) dict = "('k \<times> 'v) list"

definition dict_get :: "('k, 'v) dict \<Rightarrow> 'k \<Rightarrow> 'v option" where
  "dict_get d k = map_of d k"

definition dict_keys :: "('k, 'v) dict \<Rightarrow> 'k list" where
  "dict_keys d = map fst d"

definition dict_has :: "'k \<Rightarrow> ('k, 'v) dict \<Rightarrow> bool" where
  "dict_has k d \<longleftrightarrow> k \<in> set (dict_keys d)"

fun dict_set :: "'k \<Rightarrow> 'v \<Rightarrow> ('k, 'v) dict \<Rightarrow> ('k, 'v) dict" where
  "dict_set k v [] = [(k, v)]"
| "dict_set k v ((k', v') # d) =
     (if k' = k then (k', v) # d else (k', v') # dict_set k v d)"

section \<open>The log analyser (task3)\<close>

text \<open>A parsed line; the key \<^verbatim>\<open>text\<close> of the source is the field \<open>log_text\<close>.\<close>

record log =
  date_time :: string
  level :: string
  log_text :: string

text \<open>
  \<^verbatim>\<open>date, time, level, *text = line.split()\<close> raises \<^verbatim>\<open>ValueError\<close> when the
  line has fewer than three tokens.
\<close>

definition digit :: "nat \<Rightarrow> string" where
  "digit n = take 1 (drop n ''0123456789'')"

definition unpack_error :: "nat \<Rightarrow> nat \<Rightarrow> exn" where
  "unpack_error need got =
     ValueError (''not enough values to unpack (expected at least ''
       @ digit need @ '', got '' @ digit got @ '')'')"

definition parse_log_line :: "string \<Rightarrow> exn + log" where
  "parse_log_line line =
     (case split_ws line of
        date # time # lvl # txt \<Rightarrow>
          Inr \<lparr>date_time = date @ '' '' @ time, level = lvl, log_text = join '' '' txt\<rparr>
      | toks \<Rightarrow> Inl (unpack_error 3 (length toks)))"







text \<open>
  The loop of \<^verbatim>\<open>filter_logs_by_level\<close>, with \<open>filtered_list\<close> as it grows. The
  test is \<^verbatim>\<open>level.upper() == log["level"]\<close>.
\<close>

fun filter_loop :: "log list \<Rightarrow> log list \<Rightarrow> string \<Rightarrow> log list" where
  "filter_loop filtered_list [] lvl = filtered_list"
| "filter_loop filtered_list (l # logs) lvl =
     filter_loop
       (if upper lvl = code_points (level l) then filtered_list @ [l] else filtered_list)
       logs lvl"

text \<open>
  The result is the list returned and the list \<open>logs\<close> of the caller after the call: the
  function appends to \<open>filtered_list\<close> only and has no statement that changes \<open>logs\<close>.
\<close>

definition filter_logs_by_level :: "log list \<Rightarrow> string \<Rightarrow> log list \<times> log list" where
  "filter_logs_by_level logs lvl = (filter_loop [] logs lvl, logs)"

text \<open>
  \<^verbatim>\<open>Counter\<close>: a missing key reads as 0, so \<^verbatim>\<open>counted_levels[level] += 1\<close>
  stores 1 for a new level and one more for a known one.
\<close>

definition counter_get :: "('k, int) dict \<Rightarrow> 'k \<Rightarrow> int" where
  "counter_get d k = (case dict_get d k of None \<Rightarrow> 0 | Some n \<Rightarrow> n)"

definition counter_incr :: "'k \<Rightarrow> ('k, int) dict \<Rightarrow> ('k, int) dict" where
  "counter_incr k d = dict_set k (counter_get d k + 1) d"

fun count_loop :: "(string, int) dict \<Rightarrow> log list \<Rightarrow> (string, int) dict" where
  "count_loop counted_levels [] = counted_levels"
| "count_loop counted_levels (l # logs) = count_loop (counter_incr (level l) counted_levels) logs"

definition count_log_by_level :: "log list \<Rightarrow> (string, int) dict" where
  "count_log_by_level logs = count_loop [] logs"

text \<open>Spec side: the distinct elements of a list in the order of their first occurrence.\<close>

fun first_seen :: "'a list \<Rightarrow> 'a list" where
  "first_seen [] = []"
| "first_seen (x # xs) = x # filter (\<lambda>y. y \<noteq> x) (first_seen xs)"

text \<open>Spec side: a token is a non-empty word without whitespace.\<close>

definition token :: "string \<Rightarrow> bool" where
  "token t \<longleftrightarrow> t \<noteq> [] \<and> (\<forall>c\<in>set t. \<not> is_space c)"

section \<open>The contact assistant (task4)\<close>

type_synonym contacts = "(string, string) dict"

text \<open>
  What an operation returns and \<^verbatim>\<open>print\<close> shows: a \<^verbatim>\<open>str\<close>, or the
  dictionary itself (\<^verbatim>\<open>show_all\<close>).
\<close>

datatype pyval = Str string | Dict contacts

text \<open>
  The decorator. An operation is run on the shared dictionary and ends with a value or
  an exception; either way the dictionary is left as the operation made it. The
  \<^verbatim>\<open>except\<close> clauses are tried in the order of the source.
\<close>

definition input_error ::
  "(contacts \<Rightarrow> (exn + pyval) \<times> contacts) \<Rightarrow> contacts \<Rightarrow> pyval \<times> contacts" where
  "input_error func contacts =
     (case func contacts of
        (Inr v, contacts') \<Rightarrow> (v, contacts')
      | (Inl (ValueError m), contacts') \<Rightarrow> (Str ''Give me name and phone please.'', contacts')
      | (Inl (KeyError m), contacts') \<Rightarrow>
          (Str ''Contact not found, please enter a valid name.'', contacts')
      | (Inl (IndexError m), contacts') \<Rightarrow>
          (Str ''Too few or too many arguments in your command.'', contacts')
      | (Inl e, contacts') \<Rightarrow> (Str (''An error occurred: '' @ exn_str e), contacts'))"

text \<open>
  \<^verbatim>\<open>cmd, *args = user_input.split()\<close> raises \<^verbatim>\<open>ValueError\<close> when the line
  has no token; \<^verbatim>\<open>parse_input\<close> is not decorated.
\<close>

definition parse_input :: "string \<Rightarrow> exn + string \<times> string list" where
  "parse_input user_input =
     (case split_ws user_input of
        [] \<Rightarrow> Inl (unpack_error 1 0)
      | cmd # args \<Rightarrow> Inr (lower (strip cmd), args))"

text \<open>The undecorated bodies of the four operations.\<close>

definition add_contact_body :: "string list \<Rightarrow> contacts \<Rightarrow> (exn + pyval) \<times> contacts" where
  "add_contact_body args contacts =
     (if length args \<noteq> 2 then (Inl (ValueError ''Name and phone required''), contacts)
      else let name = args ! 0; phone = args ! 1
           in (Inr (Str ''Contact added.''), dict_set name phone contacts))"

definition change_contact_body :: "string list \<Rightarrow> contacts \<Rightarrow> (exn + pyval) \<times> contacts" where
  "change_contact_body args contacts =
     (if length args \<noteq> 2 then (Inl (ValueError ''Name and phone required''), contacts)
      else let name = args ! 0; phone = args ! 1
           in if \<not> dict_has name contacts
              then (Inl (KeyError ''Contact does not exist''), contacts)
              else (Inr (Str ''Contact changed.''), dict_set name phone contacts))"

definition find_phone_body :: "string list \<Rightarrow> contacts \<Rightarrow> (exn + pyval) \<times> contacts" where
  "find_phone_body args contacts =
     (if length args = 0 then (Inl (IndexError ''Name required''), contacts)
      else let name = args ! 0
           in if \<not> dict_has name contacts
              then (Inl (KeyError ''Contact does not exist''), contacts)
              else (case dict_get contacts name of
                      Some phone \<Rightarrow> (Inr (Str phone), contacts)
                    | None \<Rightarrow> (Inl (KeyError name), contacts)))"

definition show_all_body :: "contacts \<Rightarrow> (exn + pyval) \<times> contacts" where
  "show_all_body contacts = (Inr (Dict contacts), contacts)"

definition add_contact :: "string list \<Rightarrow> contacts \<Rightarrow> pyval \<times> contacts" where
  "add_contact args = input_error (add_contact_body args)"

definition change_contact :: "string list \<Rightarrow> contacts \<Rightarrow> pyval \<times> contacts" where
  "change_contact args = input_error (change_contact_body args)"

definition find_phone :: "string list \<Rightarrow> contacts \<Rightarrow> pyval \<times> contacts" where
  "find_phone args = input_error (find_phone_body args)"

definition show_all :: "contacts \<Rightarrow> pyval \<times> contacts" where
  "show_all = input_error show_all_body"

text \<open>
  One pass through the body of \<^verbatim>\<open>while True\<close> in \<^verbatim>\<open>main\<close>, on the line
  that \<^verbatim>\<open>input\<close> returned: an exception that leaves \<^verbatim>\<open>main\<close>, or what was
  printed, the dictionary afterwards, and whether the loop goes on.
\<close>

datatype control = Continue | Break

definition main_iteration ::
  "string \<Rightarrow> contacts \<Rightarrow> exn + pyval list \<times> contacts \<times> control" where
  "main_iteration user_input contacts =
     (case parse_input user_input of
        Inl e \<Rightarrow> Inl e
      | Inr (command, args) \<Rightarrow>
          if command \<in> set [''close'', ''exit''] then Inr ([Str ''Good bye!''], contacts, Break)
          else if command = ''hello'' then Inr ([Str ''How can I help you?''], contacts, Continue)
          else if command = ''add''
            then (case add_contact args contacts of (v, contacts') \<Rightarrow> Inr ([v], contacts', Continue))
          else if command = ''change''
            then (case change_contact args contacts of (v, contacts') \<Rightarrow> Inr ([v], contacts', Continue))
          else if command = ''phone''
            then (case find_phone args contacts of (v, contacts') \<Rightarrow> Inr ([v], contacts', Continue))
          else if command = ''all''
            then (case show_all contacts of (v, contacts') \<Rightarrow> Inr ([v], contacts', Continue))
          else Inr ([Str ''Invalid command.''], contacts, Continue))"

section \<open>Lemmas about the string and dictionary operations\<close>

lemma split_from_nonspace:
  "\<forall>c\<in>set w. \<not> is_space c \<Longrightarrow> split_from tok (w @ rest) = split_from (tok @ w) rest"
  by (induction w arbitrary: tok) auto





lemma split_from_tokens:
  "\<forall>c\<in>set tok. \<not> is_space c \<Longrightarrow> \<forall>t\<in>set (split_from tok s). token t"
proof (induction s arbitrary: tok)
  case Nil
  then show ?case by (simp add: token_def)
next
  case (Cons c s)
  have nil: "\<forall>t\<in>set (split_from [] s). token t"
    using Cons.IH [of "[]"] by simp
  show ?case
  proof (cases "is_space c")
    case True
    then show ?thesis using nil Cons.prems by (simp add: token_def)
  next
    case False
    then have "\<forall>t\<in>set (split_from (tok @ [c]) s). token t"
      using Cons.IH [of "tok @ [c]"] Cons.prems by simp
    with False show ?thesis by simp
  qed
qed

lemma split_ws_tokens: "t \<in> set (split_ws s) \<Longrightarrow> token t"
  using split_from_tokens [of "[]" s] by (simp add: split_ws_def)

lemma split_ws_token: "token t \<Longrightarrow> split_ws t = [t]"
  using split_from_nonspace [of t "[]" "[]"] by (simp add: split_ws_def token_def)

text \<open>Joining tokens with single spaces and splitting again gives the tokens back.\<close>

lemma split_ws_join:
  "\<forall>t\<in>set ws. token t \<Longrightarrow> split_ws (join '' '' ws) = ws"
proof (induction "'' ''" ws rule: join.induct)
  case 1
  then show ?case by (simp add: split_ws_def)
next
  case (2 w)
  then show ?case by (simp add: split_ws_token)
next
  case (3 w v ws)
  have sp: "is_space CHR '' ''" by (simp add: is_space_def whitespace_def)
  from 3 have w: "token w" by simp
  have "split_from [] (w @ CHR '' '' # join '' '' (v # ws))
        = split_from w (CHR '' '' # join '' '' (v # ws))"
    using split_from_nonspace [of w "[]"] w by (simp add: token_def)
  also have "\<dots> = w # split_from [] (join '' '' (v # ws))"
    using w sp by (simp add: token_def)
  finally show ?case using 3 by (simp add: split_ws_def)
qed

lemma set_first_seen: "set (first_seen xs) = set xs"
  by (induction xs) auto

lemma distinct_first_seen: "distinct (first_seen xs)"
  by (induction xs) auto

lemma remdups_snoc: "remdups (ys @ [x]) = filter (\<lambda>y. y \<noteq> x) (remdups ys) @ [x]"
  by (induction ys) auto

text \<open>\<open>first_seen\<close> in terms of the library: \<open>remdups\<close> keeps the last occurrences.\<close>

lemma first_seen_remdups: "first_seen xs = rev (remdups (rev xs))"
  by (induction xs) (auto simp: remdups_snoc rev_filter)

lemma dict_get_set:
  "dict_get (dict_set k v d) k' = (if k' = k then Some v else dict_get d k')"
  by (induction d) (auto simp: dict_get_def)

lemma dict_keys_set:
  "dict_keys (dict_set k v d) =
     (if k \<in> set (dict_keys d) then dict_keys d else dict_keys d @ [k])"
  by (induction d) (force simp: dict_keys_def)+

lemma dict_keys_set_others:
  "filter (\<lambda>k'. k' \<noteq> k) (dict_keys (dict_set k v d)) = filter (\<lambda>k'. k' \<noteq> k) (dict_keys d)"
  by (simp add: dict_keys_set)

lemma dict_has_get: "dict_has k d \<longleftrightarrow> dict_get d k \<noteq> None"
  by (simp add: dict_has_def dict_keys_def dict_get_def map_of_eq_None_iff)

lemma dict_get_has:
  "dict_get d k = (if dict_has k d then Some (counter_get d k) else None)"
  by (auto simp: dict_has_get counter_get_def)

section \<open>The log analyser: lemmas and claims\<close>

lemma parse_log_line_tokens:
  "split_ws line = d # t # l # rest \<Longrightarrow>
   parse_log_line line =
     Inr \<lparr>date_time = d @ '' '' @ t, level = l, log_text = join '' '' rest\<rparr>"
  by (simp add: parse_log_line_def)









lemma filter_loop_append:
  "filter_loop acc logs lvl = acc @ filter (\<lambda>l. code_points (level l) = upper lvl) logs"
  by (induction logs arbitrary: acc) auto

lemma counter_get_incr:
  "counter_get (counter_incr k d) k' =
     (if k' = k then counter_get d k + 1 else counter_get d k')"
  by (simp add: counter_incr_def counter_get_def dict_get_set)

lemma dict_keys_incr:
  "dict_keys (counter_incr k d) =
     (if k \<in> set (dict_keys d) then dict_keys d else dict_keys d @ [k])"
  by (simp add: counter_incr_def dict_keys_set)

lemma sum_counter_incr: "sum_list (map snd (counter_incr k d)) = sum_list (map snd d) + 1"
proof -
  have "sum_list (map snd (dict_set k (counter_get d k + n) d)) = sum_list (map snd d) + n"
    for n
    by (induction d) (auto simp: counter_get_def dict_get_def)
  then show ?thesis by (simp add: counter_incr_def)
qed

lemma count_loop_keys:
  "dict_keys (count_loop c logs) =
     dict_keys c @ filter (\<lambda>k. k \<notin> set (dict_keys c)) (first_seen (map level logs))"
proof (induction logs arbitrary: c)
  case Nil
  then show ?case by simp
next
  case (Cons l logs)
  let ?k = "level l"
  let ?fs = "first_seen (map level logs)"
  show ?case
  proof (cases "?k \<in> set (dict_keys c)")
    case True
    have "filter (\<lambda>k. k \<notin> set (dict_keys c)) (filter (\<lambda>y. y \<noteq> ?k) ?fs)
          = filter (\<lambda>k. k \<notin> set (dict_keys c)) ?fs"
      using True by (auto intro: filter_cong)
    with True show ?thesis by (simp add: Cons.IH dict_keys_incr)
  next
    case False
    have "filter (\<lambda>k. k \<notin> set (dict_keys c @ [?k])) ?fs
          = filter (\<lambda>k. k \<notin> set (dict_keys c)) (filter (\<lambda>y. y \<noteq> ?k) ?fs)"
      by (auto intro: filter_cong)
    with False show ?thesis by (simp add: Cons.IH dict_keys_incr)
  qed
qed

lemma count_loop_get:
  "counter_get (count_loop c logs) k =
     counter_get c k + int (length (filter (\<lambda>l. level l = k) logs))"
  by (induction logs arbitrary: c) (auto simp: counter_get_incr)

lemma count_loop_sum:
  "sum_list (map snd (count_loop c logs)) = sum_list (map snd c) + int (length logs)"
  by (induction logs arbitrary: c) (auto simp: sum_counter_incr)

lemma count_loop_same:
  "\<forall>l\<in>set logs. level l = lv \<Longrightarrow>
   count_loop [(lv, n)] logs = [(lv, n + int (length logs))]"
  by (induction logs arbitrary: n) (auto simp: counter_incr_def counter_get_def dict_get_def)

text \<open>
  Claim C3. A line that splits on whitespace into at least four tokens parses to a record:
  its \<open>date_time\<close> is the first two tokens joined by one space, its \<open>level\<close> is the third
  token as it stands, and its text is the remaining tokens joined by single spaces.
  Splitting the text again gives the remaining tokens back: no word of the message is
  dropped.
\<close>

theorem parse_log_line_four_tokens:
  assumes "4 \<le> length (split_ws line)"
  shows "\<exists>r. parse_log_line line = Inr r
     \<and> date_time r = split_ws line ! 0 @ '' '' @ split_ws line ! 1
     \<and> level r = split_ws line ! 2
     \<and> log_text r = join '' '' (drop 3 (split_ws line))
     \<and> split_ws (log_text r) = drop 3 (split_ws line)"
proof -
  from assms obtain d t l rest where toks: "split_ws line = d # t # l # rest"
    by (auto simp: numeral_eq_Suc Suc_le_length_iff)
  have "\<forall>x\<in>set rest. token x"
    using split_ws_tokens [of _ line] toks by simp
  then have "split_ws (join '' '' rest) = rest" by (rule split_ws_join)
  with toks show ?thesis by (simp add: parse_log_line_tokens)
qed

theorem parse_log_line_four_tokens_witness:
  "4 \<le> length (split_ws ''2024-01-22 09:00:45  Error  Database   connection failed.'')
   \<and> parse_log_line ''2024-01-22 09:00:45  Error  Database   connection failed.'' =
       Inr \<lparr>date_time = ''2024-01-22 09:00:45'', level = ''Error'',
            log_text = ''Database connection failed.''\<rparr>
   \<and> split_ws ''Database connection failed.'' = [''Database'', ''connection'', ''failed.'']
   \<and> 4 \<le> length (split_ws
       [CHR ''d'', CHR '' '', CHR ''t'', CHR 0xA0, CHR ''I'', CHR ''N'', CHR ''F'', CHR ''O'',
        CHR 0x85, CHR ''x''])
   \<and> parse_log_line
       [CHR ''d'', CHR '' '', CHR ''t'', CHR 0xA0, CHR ''I'', CHR ''N'', CHR ''F'', CHR ''O'',
        CHR 0x85, CHR ''x''] =
       Inr \<lparr>date_time = ''d t'', level = ''INFO'', log_text = ''x''\<rparr>"
proof -
  let ?line = "''2024-01-22 09:00:45  Error  Database   connection failed.''"
  let ?nbsp = "[CHR ''d'', CHR '' '', CHR ''t'', CHR 0xA0, CHR ''I'', CHR ''N'', CHR ''F'', CHR ''O'',
        CHR 0x85, CHR ''x'']"
  have toks: "split_ws ?line =
      [''2024-01-22'', ''09:00:45'', ''Error'', ''Database'', ''connection'', ''failed.'']"
    by (simp add: split_ws_def is_space_def whitespace_def)
  then have h: "4 \<le> length (split_ws ?line)" by simp
  have toks2: "split_ws ?nbsp = [''d'', ''t'', ''INFO'', ''x'']"
    by (simp add: split_ws_def is_space_def whitespace_def)
  then have h2: "4 \<le> length (split_ws ?nbsp)" by simp
  from parse_log_line_four_tokens [OF h] obtain r where r: "parse_log_line ?line = Inr r"
    "date_time r = split_ws ?line ! 0 @ '' '' @ split_ws ?line ! 1"
    "level r = split_ws ?line ! 2"
    "log_text r = join '' '' (drop 3 (split_ws ?line))"
    "split_ws (log_text r) = drop 3 (split_ws ?line)"
    by blast
  from r(2-4) have req: "r = \<lparr>date_time = ''2024-01-22 09:00:45'', level = ''Error'',
            log_text = ''Database connection failed.''\<rparr>"
    by (simp add: toks)
  from parse_log_line_four_tokens [OF h2] obtain q where q: "parse_log_line ?nbsp = Inr q"
    "date_time q = split_ws ?nbsp ! 0 @ '' '' @ split_ws ?nbsp ! 1"
    "level q = split_ws ?nbsp ! 2"
    "log_text q = join '' '' (drop 3 (split_ws ?nbsp))"
    by blast
  from q(2-4) have qeq: "q = \<lparr>date_time = ''d t'', level = ''INFO'', log_text = ''x''\<rparr>"
    by (simp add: toks2)
  from r(1,5) q(1) h h2 req qeq show ?thesis by (simp add: toks)
qed






text \<open>
  Claim C5. \<^verbatim>\<open>filter_logs_by_level\<close> returns the records whose stored level equals
  the filter in upper case, in the order of the input; the stored level is compared as it
  is. The list \<open>logs\<close> is the same after the call. When no record matches, the result is
  the empty list.
\<close>

theorem filter_logs_by_level_spec:
  "filter_logs_by_level logs lvl = (filter (\<lambda>l. code_points (level l) = upper lvl) logs, logs)
   \<and> ((\<forall>l\<in>set logs. code_points (level l) \<noteq> upper lvl) \<longrightarrow>
        fst (filter_logs_by_level logs lvl) = [])"
  by (simp add: filter_logs_by_level_def filter_loop_append)

theorem filter_logs_by_level_spec_witness:
  "upper ''error'' = code_points ''ERROR''
   \<and> filter_logs_by_level
       [\<lparr>date_time = ''d1 t1'', level = ''ERROR'', log_text = ''a''\<rparr>,
        \<lparr>date_time = ''d2 t2'', level = ''error'', log_text = ''b''\<rparr>,
        \<lparr>date_time = ''d3 t3'', level = ''INFO'', log_text = ''c''\<rparr>,
        \<lparr>date_time = ''d4 t4'', level = ''ERROR'', log_text = ''d''\<rparr>] ''error''
     = ([\<lparr>date_time = ''d1 t1'', level = ''ERROR'', log_text = ''a''\<rparr>,
         \<lparr>date_time = ''d4 t4'', level = ''ERROR'', log_text = ''d''\<rparr>],
        [\<lparr>date_time = ''d1 t1'', level = ''ERROR'', log_text = ''a''\<rparr>,
         \<lparr>date_time = ''d2 t2'', level = ''error'', log_text = ''b''\<rparr>,
         \<lparr>date_time = ''d3 t3'', level = ''INFO'', log_text = ''c''\<rparr>,
         \<lparr>date_time = ''d4 t4'', level = ''ERROR'', log_text = ''d''\<rparr>])
   \<and> upper [CHR ''s'', CHR ''t'', CHR ''r'', CHR ''a'', CHR 0xDF, CHR ''e''] = code_points ''STRASSE''
   \<and> fst (filter_logs_by_level
       [\<lparr>date_time = ''d1 t1'', level = ''STRASSE'', log_text = ''a''\<rparr>,
        \<lparr>date_time = ''d2 t2'', level = [CHR ''S'', CHR ''T'', CHR ''R'', CHR ''A'', CHR 0xDF, CHR ''E''],
         log_text = ''b''\<rparr>]
       [CHR ''s'', CHR ''t'', CHR ''r'', CHR ''a'', CHR 0xDF, CHR ''e''])
     = [\<lparr>date_time = ''d1 t1'', level = ''STRASSE'', log_text = ''a''\<rparr>]
   \<and> code_points (level \<lparr>date_time = ''d3 t3'', level = ''INFO'', log_text = ''c''\<rparr>) \<noteq> upper ''debug''
   \<and> fst (filter_logs_by_level [\<lparr>date_time = ''d3 t3'', level = ''INFO'', log_text = ''c''\<rparr>] ''debug'')
     = []"
proof -
  let ?sz = "[CHR ''s'', CHR ''t'', CHR ''r'', CHR ''a'', CHR 0xDF, CHR ''e'']"
  have u1: "upper ''error'' = code_points ''ERROR''"
    by (simp add: upper_def upper_char_def code_points_def)
  have u2: "upper ''debug'' = code_points ''DEBUG''"
    by (simp add: upper_def upper_char_def code_points_def)
  have u3: "upper ?sz = code_points ''STRASSE''"
    by (simp add: upper_def upper_char_def code_points_def)
  let ?logs = "[\<lparr>date_time = ''d1 t1'', level = ''ERROR'', log_text = ''a''\<rparr>,
        \<lparr>date_time = ''d2 t2'', level = ''error'', log_text = ''b''\<rparr>,
        \<lparr>date_time = ''d3 t3'', level = ''INFO'', log_text = ''c''\<rparr>,
        \<lparr>date_time = ''d4 t4'', level = ''ERROR'', log_text = ''d''\<rparr>]"
  let ?street = "[\<lparr>date_time = ''d1 t1'', level = ''STRASSE'', log_text = ''a''\<rparr>,
        \<lparr>date_time = ''d2 t2'', level = [CHR ''S'', CHR ''T'', CHR ''R'', CHR ''A'', CHR 0xDF, CHR ''E''],
         log_text = ''b''\<rparr>]"
  let ?one = "[\<lparr>date_time = ''d3 t3'', level = ''INFO'', log_text = ''c''\<rparr>]"
  have h: "\<forall>l\<in>set ?one. code_points (level l) \<noteq> upper ''debug''"
    by (simp add: u2 code_points_def)
  have "filter_logs_by_level ?logs ''error''
      = (filter (\<lambda>l. code_points (level l) = upper ''error'') ?logs, ?logs)"
    using filter_logs_by_level_spec [of ?logs "''error''"] by blast
  moreover have "filter_logs_by_level ?street ?sz
      = (filter (\<lambda>l. code_points (level l) = upper ?sz) ?street, ?street)"
    using filter_logs_by_level_spec [of ?street ?sz] by blast
  moreover have "fst (filter_logs_by_level ?one ''debug'') = []"
    using filter_logs_by_level_spec [of ?one "''debug''"] h by blast
  ultimately show ?thesis using h by (simp add: u1 u3 code_points_def)
qed

text \<open>
  Claim C6. \<^verbatim>\<open>count_log_by_level\<close> maps each level that occurs to the number of
  records that carry it and has no other key; the keys are distinct strings, compared as
  they are, in the order of their first occurrence; the counts add up to the number of
  records. The empty list gives the empty dictionary, and a non-empty list of records of
  one level \<open>lv\<close> gives the single entry of \<open>lv\<close> with the length of the list.
\<close>

theorem count_log_by_level_spec:
  "dict_get (count_log_by_level logs) lv =
     (if lv \<in> level ` set logs
      then Some (int (length (filter (\<lambda>l. level l = lv) logs))) else None)
   \<and> dict_keys (count_log_by_level logs) = first_seen (map level logs)
   \<and> distinct (dict_keys (count_log_by_level logs))
   \<and> sum_list (map snd (count_log_by_level logs)) = int (length logs)
   \<and> count_log_by_level [] = []
   \<and> (logs \<noteq> [] \<and> (\<forall>l\<in>set logs. level l = lv) \<longrightarrow>
        count_log_by_level logs = [(lv, int (length logs))])"
proof -
  have keys: "dict_keys (count_log_by_level logs) = first_seen (map level logs)"
    using count_loop_keys [of "[]" logs] by (simp add: count_log_by_level_def dict_keys_def)
  have has: "dict_has lv (count_log_by_level logs) \<longleftrightarrow> lv \<in> level ` set logs"
    by (simp add: dict_has_def keys set_first_seen)
  have cnt: "counter_get (count_log_by_level logs) lv
      = int (length (filter (\<lambda>l. level l = lv) logs))"
    using count_loop_get [of "[]" logs lv]
    by (simp add: count_log_by_level_def counter_get_def dict_get_def)
  have get: "dict_get (count_log_by_level logs) lv =
     (if lv \<in> level ` set logs
      then Some (int (length (filter (\<lambda>l. level l = lv) logs))) else None)"
    by (simp add: dict_get_has [of "count_log_by_level logs" lv] has cnt)
  have total: "sum_list (map snd (count_log_by_level logs)) = int (length logs)"
    using count_loop_sum [of "[]" logs] by (simp add: count_log_by_level_def)
  have same: "count_log_by_level logs = [(lv, int (length logs))]"
    if "logs \<noteq> []" and all: "\<forall>l\<in>set logs. level l = lv"
  proof -
    from that obtain l rest where l: "logs = l # rest" by (cases logs) auto
    with all have "level l = lv" "\<forall>l\<in>set rest. level l = lv" by auto
    then show ?thesis
      using count_loop_same [of rest lv 1] l
      by (simp add: count_log_by_level_def counter_incr_def counter_get_def dict_get_def)
  qed
  show ?thesis
    using keys get total same by (simp add: distinct_first_seen count_log_by_level_def)
qed

theorem count_log_by_level_spec_witness:
  "count_log_by_level
     [\<lparr>date_time = ''d1 t1'', level = ''INFO'', log_text = ''a''\<rparr>,
      \<lparr>date_time = ''d2 t2'', level = ''ERROR'', log_text = ''b''\<rparr>,
      \<lparr>date_time = ''d3 t3'', level = ''info'', log_text = ''c''\<rparr>,
      \<lparr>date_time = ''d4 t4'', level = ''INFO'', log_text = ''d''\<rparr>]
     = [(''INFO'', 2), (''ERROR'', 1), (''info'', 1)]
   \<and> dict_get (count_log_by_level
     [\<lparr>date_time = ''d1 t1'', level = ''INFO'', log_text = ''a''\<rparr>,
      \<lparr>date_time = ''d2 t2'', level = ''ERROR'', log_text = ''b''\<rparr>,
      \<lparr>date_time = ''d3 t3'', level = ''info'', log_text = ''c''\<rparr>,
      \<lparr>date_time = ''d4 t4'', level = ''INFO'', log_text = ''d''\<rparr>]) ''INFO'' = Some 2
   \<and> first_seen [''INFO'', ''ERROR'', ''info'', ''INFO''] = [''INFO'', ''ERROR'', ''info'']
   \<and> [\<lparr>date_time = ''d1 t1'', level = ''INFO'', log_text = ''a''\<rparr>,
      \<lparr>date_time = ''d4 t4'', level = ''INFO'', log_text = ''d''\<rparr>] \<noteq> []
   \<and> level \<lparr>date_time = ''d1 t1'', level = ''INFO'', log_text = ''a''\<rparr> = ''INFO''
   \<and> level \<lparr>date_time = ''d4 t4'', level = ''INFO'', log_text = ''d''\<rparr> = ''INFO''
   \<and> count_log_by_level
     [\<lparr>date_time = ''d1 t1'', level = ''INFO'', log_text = ''a''\<rparr>,
      \<lparr>date_time = ''d4 t4'', level = ''INFO'', log_text = ''d''\<rparr>] = [(''INFO'', 2)]"
proof -
  let ?logs = "[\<lparr>date_time = ''d1 t1'', level = ''INFO'', log_text = ''a''\<rparr>,
      \<lparr>date_time = ''d2 t2'', level = ''ERROR'', log_text = ''b''\<rparr>,
      \<lparr>date_time = ''d3 t3'', level = ''info'', log_text = ''c''\<rparr>,
      \<lparr>date_time = ''d4 t4'', level = ''INFO'', log_text = ''d''\<rparr>]"
  let ?two = "[\<lparr>date_time = ''d1 t1'', level = ''INFO'', log_text = ''a''\<rparr>,
      \<lparr>date_time = ''d4 t4'', level = ''INFO'', log_text = ''d''\<rparr>]"
  have ev: "count_log_by_level ?logs = [(''INFO'', 2), (''ERROR'', 1), (''info'', 1)]"
    by (simp add: count_log_by_level_def counter_incr_def counter_get_def dict_get_def)
  have h: "?two \<noteq> [] \<and> (\<forall>l\<in>set ?two. level l = ''INFO'')" by simp
  have "dict_get (count_log_by_level ?logs) ''INFO'' = Some 2"
    using count_log_by_level_spec [of ?logs "''INFO''"] by simp
  moreover have "dict_keys (count_log_by_level ?logs) = first_seen (map level ?logs)"
    using count_log_by_level_spec [of ?logs "''INFO''"] by blast
  moreover have "count_log_by_level ?two = [(''INFO'', 2)]"
    using count_log_by_level_spec [of ?two "''INFO''"] h by simp
  ultimately show ?thesis using ev by (simp add: dict_keys_def)
qed

section \<open>The contact assistant: lemmas and claims\<close>

lemma add_contact_short:
  "length args \<noteq> 2 \<Longrightarrow> add_contact args contacts = (Str ''Give me name and phone please.'', contacts)"
  by (simp add: add_contact_def input_error_def add_contact_body_def)

lemma add_contact_two:
  "add_contact [name, phone] contacts = (Str ''Contact added.'', dict_set name phone contacts)"
  by (simp add: add_contact_def input_error_def add_contact_body_def)

lemma change_contact_short:
  "length args \<noteq> 2 \<Longrightarrow> change_contact args contacts = (Str ''Give me name and phone please.'', contacts)"
  by (simp add: change_contact_def input_error_def change_contact_body_def)

lemma change_contact_absent:
  "\<not> dict_has name contacts \<Longrightarrow>
   change_contact [name, phone] contacts = (Str ''Contact not found, please enter a valid name.'', contacts)"
  by (simp add: change_contact_def input_error_def change_contact_body_def)

lemma change_contact_present:
  "dict_has name contacts \<Longrightarrow>
   change_contact [name, phone] contacts = (Str ''Contact changed.'', dict_set name phone contacts)"
  by (simp add: change_contact_def input_error_def change_contact_body_def)

lemma find_phone_none:
  "find_phone [] contacts = (Str ''Too few or too many arguments in your command.'', contacts)"
  by (simp add: find_phone_def input_error_def find_phone_body_def)

lemma find_phone_absent:
  "\<not> dict_has name contacts \<Longrightarrow>
   find_phone (name # rest) contacts = (Str ''Contact not found, please enter a valid name.'', contacts)"
  by (simp add: find_phone_def input_error_def find_phone_body_def)

lemma find_phone_present:
  "dict_get contacts name = Some phone \<Longrightarrow> find_phone (name # rest) contacts = (Str phone, contacts)"
  by (simp add: find_phone_def input_error_def find_phone_body_def dict_has_get)

lemma show_all_eq: "show_all contacts = (Dict contacts, contacts)"
  by (simp add: show_all_def input_error_def show_all_body_def)

lemma find_phone_frame: "snd (find_phone args contacts) = contacts"
  by (cases args) (auto simp: find_phone_def input_error_def find_phone_body_def split: option.splits)

lemma add_contact_cases:
  "add_contact (name # rest) contacts = (Str ''Give me name and phone please.'', contacts)
   \<or> (\<exists>phone. add_contact (name # rest) contacts = (Str ''Contact added.'', dict_set name phone contacts))"
proof (cases "length (name # rest) = 2")
  case True
  then obtain phone where "rest = [phone]" by (cases rest) auto
  then show ?thesis by (auto simp: add_contact_two)
next
  case False
  then show ?thesis using add_contact_short [of "name # rest"] by blast
qed

lemma change_contact_cases:
  "snd (change_contact (name # rest) contacts) = contacts
   \<or> (\<exists>phone. snd (change_contact (name # rest) contacts) = dict_set name phone contacts)"
proof (cases "length (name # rest) = 2")
  case True
  then obtain phone where "rest = [phone]" by (cases rest) auto
  then show ?thesis
    using change_contact_absent [of name contacts phone] change_contact_present [of name contacts phone]
    by (cases "dict_has name contacts") auto
next
  case False
  then show ?thesis using change_contact_short [of "name # rest" contacts] by simp
qed

text \<open>
  Claim C7. The messages of the decorator. With an argument list of a length other than
  two, \<^verbatim>\<open>add_contact\<close> and \<^verbatim>\<open>change_contact\<close> return
  \<^verbatim>\<open>Give me name and phone please.\<close>; for a name that is not in the dictionary,
  \<^verbatim>\<open>change_contact\<close> and \<^verbatim>\<open>find_phone\<close> return the not-found message;
  \<^verbatim>\<open>find_phone\<close> without arguments returns the message about the arguments; an
  operation that ends with any other exception gives \<^verbatim>\<open>An error occurred:\<close> followed
  by the text of the exception. The dictionary is returned as the operation left it.
\<close>

theorem input_error_messages:
  "(length args \<noteq> 2 \<longrightarrow>
      add_contact args contacts = (Str ''Give me name and phone please.'', contacts)
    \<and> change_contact args contacts = (Str ''Give me name and phone please.'', contacts))
   \<and> (\<not> dict_has name contacts \<longrightarrow>
      change_contact [name, phone] contacts =
        (Str ''Contact not found, please enter a valid name.'', contacts)
    \<and> find_phone (name # rest) contacts =
        (Str ''Contact not found, please enter a valid name.'', contacts))
   \<and> find_phone [] contacts = (Str ''Too few or too many arguments in your command.'', contacts)
   \<and> (func contacts = (Inl e, contacts') \<and> e \<in> {OtherException m, FileNotFoundError m} \<longrightarrow>
      input_error func contacts = (Str (''An error occurred: '' @ m), contacts'))"
  using add_contact_short change_contact_short change_contact_absent find_phone_absent
    find_phone_none
  by (auto simp: input_error_def)

theorem input_error_messages_witness:
  "length [''Ann''] \<noteq> 2
   \<and> add_contact [''Ann''] [(''Bob'', ''1'')] = (Str ''Give me name and phone please.'', [(''Bob'', ''1'')])
   \<and> change_contact [''Ann''] [(''Bob'', ''1'')]
       = (Str ''Give me name and phone please.'', [(''Bob'', ''1'')])
   \<and> \<not> dict_has ''Ann'' [(''Bob'', ''1'')]
   \<and> change_contact [''Ann'', ''2''] [(''Bob'', ''1'')]
       = (Str ''Contact not found, please enter a valid name.'', [(''Bob'', ''1'')])
   \<and> find_phone [''Ann''] [(''Bob'', ''1'')]
       = (Str ''Contact not found, please enter a valid name.'', [(''Bob'', ''1'')])
   \<and> find_phone [] [(''Bob'', ''1'')]
       = (Str ''Too few or too many arguments in your command.'', [(''Bob'', ''1'')])
   \<and> input_error (\<lambda>c. (Inl (OtherException ''boom''), c)) [(''Bob'', ''1'')]
       = (Str ''An error occurred: boom'', [(''Bob'', ''1'')])"
proof -
  let ?c = "[(''Bob'', ''1'')] :: contacts"
  let ?f = "\<lambda>c :: contacts. (Inl (OtherException ''boom'') :: exn + pyval, c)"
  have h1: "length [''Ann''] \<noteq> 2" by simp
  have h2: "\<not> dict_has ''Ann'' ?c" by (simp add: dict_has_def dict_keys_def)
  have h3: "?f ?c = (Inl (OtherException ''boom''), ?c)
      \<and> OtherException ''boom'' \<in> {OtherException ''boom'', FileNotFoundError ''boom''}"
    by simp
  show ?thesis
    using input_error_messages
      [of "[''Ann'']" ?c "''Ann''" "''2''" "[]" ?f "OtherException ''boom''" ?c "''boom''"]
      h1 h2 h3
    by simp
qed

text \<open>
  Claim C8. \<^verbatim>\<open>change_contact\<close> with a name and a phone: when the name is not in the
  dictionary it returns the not-found message and the dictionary is unchanged; when the
  name is present it reports success, the name then maps to the new phone, and the keys
  are the same as before.
\<close>

theorem change_contact_spec:
  "(\<not> dict_has name contacts \<longrightarrow>
      change_contact [name, phone] contacts =
        (Str ''Contact not found, please enter a valid name.'', contacts))
   \<and> (dict_has name contacts \<longrightarrow>
      change_contact [name, phone] contacts = (Str ''Contact changed.'', dict_set name phone contacts)
    \<and> dict_get (dict_set name phone contacts) name = Some phone
    \<and> dict_keys (dict_set name phone contacts) = dict_keys contacts)"
  using change_contact_absent change_contact_present
  by (simp add: dict_get_set dict_keys_set dict_has_def)

theorem change_contact_spec_witness:
  "\<not> dict_has ''A'' ([] :: contacts)
   \<and> change_contact [''A'', ''2''] [] = (Str ''Contact not found, please enter a valid name.'', [])
   \<and> dict_has ''A'' [(''B'', ''7''), (''A'', ''1'')]
   \<and> change_contact [''A'', ''2''] [(''B'', ''7''), (''A'', ''1'')]
       = (Str ''Contact changed.'', [(''B'', ''7''), (''A'', ''2'')])
   \<and> dict_get [(''B'', ''7''), (''A'', ''2'')] ''A'' = Some ''2''"
proof -
  let ?c = "[(''B'', ''7''), (''A'', ''1'')] :: contacts"
  have h1: "\<not> dict_has ''A'' ([] :: contacts)" by (simp add: dict_has_def dict_keys_def)
  have h2: "dict_has ''A'' ?c" by (simp add: dict_has_def dict_keys_def)
  have ev: "dict_set ''A'' ''2'' ?c = [(''B'', ''7''), (''A'', ''2'')]" by simp
  show ?thesis
    using change_contact_spec [of "''A''" "[]" "''2''"] change_contact_spec [of "''A''" ?c "''2''"]
      h1 h2
    by (simp add: ev)
qed

text \<open>
  Claim C9. Round trip. \<^verbatim>\<open>add_contact\<close> with a name and a phone reports
  \<^verbatim>\<open>Contact added.\<close>, the dictionary then maps the name to the phone, and
  \<^verbatim>\<open>find_phone\<close> of the name returns that phone. After a \<^verbatim>\<open>change_contact\<close>
  that reported success, \<^verbatim>\<open>find_phone\<close> of the name returns the new phone.
\<close>

theorem add_change_round_trip:
  "(\<exists>contacts'. add_contact [name, phone] contacts = (Str ''Contact added.'', contacts')
       \<and> dict_get contacts' name = Some phone
       \<and> find_phone [name] contacts' = (Str phone, contacts'))
   \<and> (\<forall>contacts'. change_contact [name, phone2] contacts = (Str ''Contact changed.'', contacts')
       \<longrightarrow> find_phone [name] contacts' = (Str phone2, contacts'))"
proof -
  have get: "dict_get (dict_set name v contacts) name = Some v" for v
    by (simp add: dict_get_set)
  have "find_phone [name] contacts' = (Str phone2, contacts')"
    if "change_contact [name, phone2] contacts = (Str ''Contact changed.'', contacts')" for contacts'
  proof (cases "dict_has name contacts")
    case True
    with that have "contacts' = dict_set name phone2 contacts"
      by (simp add: change_contact_present)
    then show ?thesis using find_phone_present [OF get [of phone2], of "[]"] by simp
  next
    case False
    with that show ?thesis by (simp add: change_contact_absent)
  qed
  then show ?thesis
    using find_phone_present [OF get [of phone], of "[]"] get [of phone]
    by (simp add: add_contact_two)
qed

theorem add_change_round_trip_witness:
  "add_contact [''A'', ''1''] [] = (Str ''Contact added.'', [(''A'', ''1'')])
   \<and> find_phone [''A''] [(''A'', ''1'')] = (Str ''1'', [(''A'', ''1'')])
   \<and> change_contact [''A'', ''2''] [(''A'', ''1'')] = (Str ''Contact changed.'', [(''A'', ''2'')])
   \<and> find_phone [''A''] [(''A'', ''2'')] = (Str ''2'', [(''A'', ''2'')])"
proof -
  have add: "add_contact [''A'', ''1''] [] = (Str ''Contact added.'', [(''A'', ''1'')])"
    by (simp add: add_contact_def input_error_def add_contact_body_def)
  have chg: "change_contact [''A'', ''2''] [(''A'', ''1'')]
      = (Str ''Contact changed.'', [(''A'', ''2'')])"
    by (simp add: change_contact_def input_error_def change_contact_body_def dict_has_def
        dict_keys_def)
  have "find_phone [''A''] [(''A'', ''1'')] = (Str ''1'', [(''A'', ''1'')])"
    using add_change_round_trip [of "''A''" "''1''" "[]" "''2''"] add by simp
  moreover have "find_phone [''A''] [(''A'', ''2'')] = (Str ''2'', [(''A'', ''2'')])"
    using add_change_round_trip [of "''A''" "''1''" "[(''A'', ''1'')]" "''2''"] chg by simp
  ultimately show ?thesis using add chg by simp
qed

text \<open>
  Claim C10. Frame. \<^verbatim>\<open>add_contact\<close> and \<^verbatim>\<open>change_contact\<close>, called with a
  name first, leave the value of every other key as it was, and the other keys are the
  same, in the same order; called without arguments they change nothing.
  \<^verbatim>\<open>find_phone\<close> and \<^verbatim>\<open>show_all\<close> return the dictionary they were given.
\<close>

theorem contacts_frame:
  "(k \<noteq> name \<longrightarrow>
      dict_get (snd (add_contact (name # rest) contacts)) k = dict_get contacts k
    \<and> dict_get (snd (change_contact (name # rest) contacts)) k = dict_get contacts k)
   \<and> filter (\<lambda>k'. k' \<noteq> name) (dict_keys (snd (add_contact (name # rest) contacts)))
       = filter (\<lambda>k'. k' \<noteq> name) (dict_keys contacts)
   \<and> filter (\<lambda>k'. k' \<noteq> name) (dict_keys (snd (change_contact (name # rest) contacts)))
       = filter (\<lambda>k'. k' \<noteq> name) (dict_keys contacts)
   \<and> snd (add_contact [] contacts) = contacts
   \<and> snd (change_contact [] contacts) = contacts
   \<and> snd (find_phone args contacts) = contacts
   \<and> snd (show_all contacts) = contacts"
proof -
  have a: "dict_get (snd (add_contact (name # rest) contacts)) k = dict_get contacts k" if "k \<noteq> name"
    using add_contact_cases [of name rest contacts] that by (auto simp: dict_get_set)
  have b: "dict_get (snd (change_contact (name # rest) contacts)) k = dict_get contacts k" if "k \<noteq> name"
    using change_contact_cases [of name rest contacts] that by (auto simp: dict_get_set)
  have c: "filter (\<lambda>k'. k' \<noteq> name) (dict_keys (snd (add_contact (name # rest) contacts)))
       = filter (\<lambda>k'. k' \<noteq> name) (dict_keys contacts)"
    using add_contact_cases [of name rest contacts] by (auto simp: dict_keys_set_others)
  have d: "filter (\<lambda>k'. k' \<noteq> name) (dict_keys (snd (change_contact (name # rest) contacts)))
       = filter (\<lambda>k'. k' \<noteq> name) (dict_keys contacts)"
    using change_contact_cases [of name rest contacts] by (auto simp: dict_keys_set_others)
  show ?thesis
    using a b c d
    by (simp add: add_contact_short change_contact_short find_phone_frame show_all_eq)
qed

theorem contacts_frame_witness:
  "''B'' \<noteq> ''A''
   \<and> snd (add_contact [''A'', ''1''] [(''B'', ''7'')]) = [(''B'', ''7''), (''A'', ''1'')]
   \<and> dict_get (snd (add_contact [''A'', ''1''] [(''B'', ''7'')])) ''B'' = Some ''7''
   \<and> snd (change_contact [''A'', ''2''] [(''B'', ''7''), (''A'', ''1'')]) = [(''B'', ''7''), (''A'', ''2'')]
   \<and> dict_get (snd (change_contact [''A'', ''2''] [(''B'', ''7''), (''A'', ''1'')])) ''B'' = Some ''7''
   \<and> snd (find_phone [''B''] [(''B'', ''7'')]) = [(''B'', ''7'')]
   \<and> snd (show_all [(''B'', ''7'')]) = [(''B'', ''7'')]"
proof -
  let ?c = "[(''B'', ''7''), (''A'', ''1'')] :: contacts"
  have h: "''B'' \<noteq> ''A''" by simp
  have add: "snd (add_contact [''A'', ''1''] [(''B'', ''7'')]) = [(''B'', ''7''), (''A'', ''1'')]"
    by (simp add: add_contact_def input_error_def add_contact_body_def)
  have chg: "snd (change_contact [''A'', ''2''] ?c) = [(''B'', ''7''), (''A'', ''2'')]"
    by (simp add: change_contact_def input_error_def change_contact_body_def dict_has_def
        dict_keys_def)
  have "dict_get (snd (add_contact [''A'', ''1''] [(''B'', ''7'')])) ''B'' = Some ''7''"
    using contacts_frame [of "''B''" "''A''" "[''1'']" "[(''B'', ''7'')]"] h
    by (simp add: dict_get_def)
  moreover have "dict_get (snd (change_contact [''A'', ''2''] ?c)) ''B'' = Some ''7''"
    using contacts_frame [of "''B''" "''A''" "[''2'']" ?c] h by (simp add: dict_get_def)
  moreover have "snd (find_phone [''B''] [(''B'', ''7'')]) = [(''B'', ''7'')]"
    using contacts_frame [of "''B''" "''A''" "[]" "[(''B'', ''7'')]" "[''B'']"] by blast
  moreover have "snd (show_all [(''B'', ''7'')]) = [(''B'', ''7'')]"
    using contacts_frame [of "''B''" "''A''" "[]" "[(''B'', ''7'')]" "[]"] by blast
  ultimately show ?thesis using add chg by simp
qed

text \<open>
  Claim C1 says that one pass of the loop never raises. The handlers are decorated, but
  \<^verbatim>\<open>parse_input\<close> is not: on the empty line the unpacking in \<^verbatim>\<open>parse_input\<close>
  raises \<^verbatim>\<open>ValueError\<close>, nothing in \<^verbatim>\<open>main\<close> catches it, and the loop ends
  with the exception.
\<close>

theorem main_iteration_empty_line_raises:
  "main_iteration '''' [] =
     Inl (ValueError ''not enough values to unpack (expected at least 1, got 0)'')"
  by (simp add: main_iteration_def parse_input_def split_ws_def unpack_error_def digit_def)

text \<open>
  The lines on which one pass raises are exactly the lines without a token: the empty
  line and the lines of whitespace only. On every other line the pass ends with its output.
\<close>

lemma main_iteration_raises_iff:
  "(\<exists>e. main_iteration user_input contacts = Inl e) \<longleftrightarrow> split_ws user_input = []"
  by (auto simp: main_iteration_def parse_input_def split: list.splits prod.splits)

end
